theory Spec2Isabelle
  imports Complex_Main
begin

section \<open>Common conventions\<close>

text \<open>
  Python floats are modelled by \<^typ>\<open>real\<close> (exact arithmetic; rounding is not
  modelled), Python's unbounded integers by \<^typ>\<open>int\<close>, and a Python \<open>str\<close> by the
  list of its Unicode code points, since the sources contain keywords and messages
  outside ASCII and \<open>in\<close>, \<open>strip\<close> and \<open>len\<close> work on code points.
  Exceptions are values of \<open>py_error\<close>; a function that can raise returns
  \<open>py_error + 'a\<close>.
\<close>

type_synonym pystr = "nat list"

text \<open>
  The exception classes the sources raise or catch. Where the code reads \<open>str(e)\<close>
  the constructor carries that message.
\<close>

datatype py_error =
    ZeroDivisionError
  | StatisticsError
  | ValueError pystr
  | TypeError pystr
  | AttributeError pystr
  | JSONDecodeError pystr
  | Timeout pystr
  | RequestException pystr
  | OtherException pystr

fun str_exc :: "py_error \<Rightarrow> pystr" where
  "str_exc ZeroDivisionError = map of_char ''division by zero''"
| "str_exc StatisticsError = map of_char ''mean requires at least one data point''"
| "str_exc (ValueError m) = m"
| "str_exc (TypeError m) = m"
| "str_exc (AttributeError m) = m"
| "str_exc (JSONDecodeError m) = m"
| "str_exc (Timeout m) = m"
| "str_exc (RequestException m) = m"
| "str_exc (OtherException m) = m"

text \<open>An ASCII literal as a Python string.\<close>

definition ascii :: "string \<Rightarrow> pystr" where
  "ascii s = map of_char s"

text \<open>\<open>str(n)\<close> for an integer: decimal digits, with a minus sign when negative.\<close>

fun str_nat :: "nat \<Rightarrow> pystr" where
  "str_nat n = (if n < 10 then [48 + n] else str_nat (n div 10) @ [48 + n mod 10])"

declare str_nat.simps [simp del]

definition str_int :: "int \<Rightarrow> pystr" where
  "str_int i = (if i < 0 then 45 # str_nat (nat (- i)) else str_nat (nat i))"


text \<open>
  The code points \<open>str.strip()\<close> removes (those for which \<open>str.isspace\<close> holds),
  and \<open>strip\<close> itself: leading and trailing whitespace dropped.
\<close>

definition isspace :: "nat \<Rightarrow> bool" where
  "isspace c \<longleftrightarrow>
     (0x09 \<le> c \<and> c \<le> 0x0D) \<or> (0x1C \<le> c \<and> c \<le> 0x20) \<or> c = 0x85 \<or> c = 0xA0
     \<or> c = 0x1680 \<or> (0x2000 \<le> c \<and> c \<le> 0x200A) \<or> c = 0x2028 \<or> c = 0x2029
     \<or> c = 0x202F \<or> c = 0x205F \<or> c = 0x3000"

definition strip :: "pystr \<Rightarrow> pystr" where
  "strip s = rev (dropWhile isspace (rev (dropWhile isspace s)))"

text \<open>\<open>kw in text\<close> on strings: \<open>kw\<close> occurs as a contiguous run of \<open>text\<close>.\<close>

fun startswith :: "pystr \<Rightarrow> pystr \<Rightarrow> bool" where
  "startswith text [] = True"
| "startswith [] (k # ks) = False"
| "startswith (c # cs) (k # ks) = (c = k \<and> startswith cs ks)"

fun str_in :: "pystr \<Rightarrow> pystr \<Rightarrow> bool" where
  "str_in kw [] = (kw = [])"
| "str_in kw (c # cs) = (startswith (c # cs) kw \<or> str_in kw cs)"

text \<open>The values \<open>json.loads\<close> builds; an object keeps its members as a key-value list.\<close>

datatype json =
    JNull
  | JBool bool
  | JNum real
  | JStr pystr
  | JArr "json list"
  | JObj "(pystr \<times> json) list"

text \<open>\<open>v.get(key, default)\<close>: only a JSON object has \<open>get\<close>.\<close>

fun json_get :: "json \<Rightarrow> pystr \<Rightarrow> json \<Rightarrow> py_error + json" where
  "json_get (JObj kv) key dflt = Inr (case map_of kv key of None \<Rightarrow> dflt | Some v \<Rightarrow> v)"
| "json_get v key dflt = Inl (AttributeError (ascii ''object has no attribute get''))"


text \<open>Python's \<open>a / b\<close> on numbers: raises on a zero divisor.\<close>

definition truediv :: "real \<Rightarrow> real \<Rightarrow> py_error + real" where
  "truediv a b = (if b = 0 then Inl ZeroDivisionError else Inr (a / b))"

section \<open>src/HHEM\_API.py: the consistency backend\<close>

text \<open>
  \<open>HHEMResponse\<close>. The field \<open>raw_response\<close> is a diagnostic copy of the reply that
  no code reads; it is left out. The fields \<open>success\<close> and \<open>error_message\<close> carry a
  suffix because the other response classes use the same names. The field \<open>score\<close>
  holds whatever value the reply has under \<open>score\<close>, which need not be a number.
\<close>

record HHEMResponse =
  score :: json
  success_h :: bool
  error_message_h :: "pystr option"

text \<open>The request body \<open>evaluate_consistency\<close> sends.\<close>

record hhem_payload =
  model_name :: pystr
  generated_text :: pystr
  source_texts :: "pystr list"

text \<open>
  What \<open>requests.post\<close> does: it raises, or returns a response with a status code, a
  text, and a body. The body is what \<open>response.json()\<close> gives: the exception it
  raises, or the decoded JSON value.
\<close>

datatype http_outcome =
    PostRaises py_error
  | PostReturns int pystr "py_error + json"

text \<open>The \<open>except\<close> clauses of \<open>evaluate_consistency\<close>, in their order.\<close>

fun hhem_except :: "py_error \<Rightarrow> HHEMResponse" where
  "hhem_except (Timeout m) =
     \<lparr> score = JNum 0, success_h = False,
       error_message_h = Some [0x8BF7, 0x6C42, 0x8D85, 0x65F6] \<rparr>"
| "hhem_except (RequestException m) =
     \<lparr> score = JNum 0, success_h = False,
       error_message_h = Some ([0x8BF7, 0x6C42, 0x5F02, 0x5E38, 0x3A, 0x20] @ m) \<rparr>"
| "hhem_except (JSONDecodeError m) =
     \<lparr> score = JNum 0, success_h = False,
       error_message_h =
         Some ([0x54CD, 0x5E94, 0x4A, 0x53, 0x4F, 0x4E, 0x89E3, 0x6790, 0x9519, 0x8BEF, 0x3A, 0x20] @ m) \<rparr>"
| "hhem_except e =
     \<lparr> score = JNum 0, success_h = False,
       error_message_h = Some ([0x672A, 0x77E5, 0x9519, 0x8BEF, 0x3A, 0x20] @ str_exc e) \<rparr>"

definition evaluate_consistency ::
  "(hhem_payload \<Rightarrow> http_outcome) \<Rightarrow> pystr \<Rightarrow> pystr list \<Rightarrow> pystr \<Rightarrow> HHEMResponse" where
  "evaluate_consistency post gen_text src_texts model =
     (if strip gen_text = [] then
        \<lparr> score = JNum 0, success_h = False,
          error_message_h = Some [0x751F, 0x6210, 0x6587, 0x672C, 0x4E0D, 0x80FD, 0x4E3A, 0x7A7A] \<rparr>
      else if src_texts = [] \<or> \<not> list_ex (\<lambda>t. strip t \<noteq> []) src_texts then
        \<lparr> score = JNum 0, success_h = False,
          error_message_h = Some [0x6E90, 0x6587, 0x672C, 0x4E0D, 0x80FD, 0x4E3A, 0x7A7A] \<rparr>
      else
        (let payload = \<lparr> model_name = model, generated_text = strip gen_text,
                          source_texts = map strip (filter (\<lambda>t. strip t \<noteq> []) src_texts) \<rparr>
         in case post payload of
              PostRaises e \<Rightarrow> hhem_except e
            | PostReturns status_code text body \<Rightarrow>
                if status_code = 200 then
                  (case body of
                     Inl e \<Rightarrow> hhem_except e
                   | Inr result \<Rightarrow>
                       (case json_get result (ascii ''score'') (JNum 0) of
                          Inl e \<Rightarrow> hhem_except e
                        | Inr sc \<Rightarrow>
                            \<lparr> score = sc, success_h = True, error_message_h = None \<rparr>))
                else
                  \<lparr> score = JNum 0, success_h = False,
                    error_message_h =
                      Some (ascii ''HTTP '' @ str_int status_code @ ascii '': '' @ text) \<rparr>))"


section \<open>src/qwen\_hallucination\_evaluator.py: the judgment backend\<close>

datatype QwenModel = QWEN_TURBO | QWEN_PLUS | QWEN_MAX | QWEN_MAX_LONGCONTEXT

fun model_value :: "QwenModel \<Rightarrow> pystr" where
  "model_value QWEN_TURBO = ascii ''qwen-turbo''"
| "model_value QWEN_PLUS = ascii ''qwen-plus''"
| "model_value QWEN_MAX = ascii ''qwen-max''"
| "model_value QWEN_MAX_LONGCONTEXT = ascii ''qwen-max-longcontext''"

text \<open>
  \<open>QwenHallucinationResponse\<close>, again without \<open>raw_response\<close>. The explanation is
  whatever value the reply holds under \<open>explanation\<close>, so it is a \<open>json\<close>.
\<close>

record QwenHallucinationResponse =
  hallucination_score :: real
  confidence :: real
  explanation :: json
  success_q :: bool
  error_message_q :: "pystr option"

text \<open>
  The arguments of \<open>Generation.call\<close>. The prompt is built from the generated text and
  the sources by a fixed template (\<open>_build_prompt\<close>), so the request carries the two
  instead of the rendered prompt.
\<close>

record generation_request =
  req_model :: pystr
  req_generated_text :: pystr
  req_source_texts :: "pystr list"
  req_temperature :: real
  req_max_tokens :: int

text \<open>
  What \<open>Generation.call\<close> does: it raises, or returns a response with a status code,
  a \<open>message\<close> attribute when it has one, and, when the response has \<open>output\<close> and
  \<open>output.choices\<close>, the outcome of reading \<open>choices[0].message.content\<close>.
\<close>

datatype generation_outcome =
    CallRaises py_error
  | CallReturns int "pystr option" "(py_error + pystr) option"

text \<open>
  The library functions \<open>evaluate_hallucination\<close> relies on: \<open>str.lower\<close>,
  \<open>json.loads\<close>, and \<open>float\<close> applied to a string.
\<close>

record py_builtins =
  lower :: "pystr \<Rightarrow> pystr"
  json_loads :: "pystr \<Rightarrow> py_error + json"
  float_of_str :: "pystr \<Rightarrow> py_error + real"

text \<open>\<open>float(v)\<close> for a value read from JSON.\<close>

fun py_float :: "py_builtins \<Rightarrow> json \<Rightarrow> py_error + real" where
  "py_float env (JNum x) = Inr x"
| "py_float env (JBool b) = Inr (if b then 1 else 0)"
| "py_float env (JStr s) = float_of_str env s"
| "py_float env JNull = Inl (TypeError (ascii ''float() argument must be a string or a real number''))"
| "py_float env (JArr xs) = Inl (TypeError (ascii ''float() argument must be a string or a real number''))"
| "py_float env (JObj kv) = Inl (TypeError (ascii ''float() argument must be a string or a real number''))"

text \<open>\<open>any(keyword in text for keyword in keywords)\<close>.\<close>

definition any_keyword :: "pystr list \<Rightarrow> pystr \<Rightarrow> bool" where
  "any_keyword keywords text = list_ex (\<lambda>kw. str_in kw text) keywords"

text \<open>
  \<open>_parse_text_response\<close>: the four keyword lists, in the order of the source. They
  read "severe hallucination / completely wrong / seriously inconsistent",
  "hallucination present / partly wrong / inaccurate", "minor problem / basically
  accurate" and "no hallucination / completely accurate / matches the facts".
\<close>

definition severe_keywords :: "pystr list" where
  "severe_keywords =
     [[0x4E25, 0x91CD, 0x5E7B, 0x89C9], [0x5B8C, 0x5168, 0x9519, 0x8BEF],
      [0x4E25, 0x91CD, 0x4E0D, 0x7B26]]"

definition present_keywords :: "pystr list" where
  "present_keywords =
     [[0x5B58, 0x5728, 0x5E7B, 0x89C9], [0x90E8, 0x5206, 0x9519, 0x8BEF], [0x4E0D, 0x51C6, 0x786E]]"

definition minor_keywords :: "pystr list" where
  "minor_keywords = [[0x8F7B, 0x5FAE, 0x95EE, 0x9898], [0x57FA, 0x672C, 0x51C6, 0x786E]]"

definition none_keywords :: "pystr list" where
  "none_keywords =
     [[0x65E0, 0x5E7B, 0x89C9], [0x5B8C, 0x5168, 0x51C6, 0x786E], [0x7B26, 0x5408, 0x4E8B, 0x5B9E]]"

definition keyword_score :: "pystr \<Rightarrow> real" where
  "keyword_score text_lower =
     (if any_keyword severe_keywords text_lower then 0.9
      else if any_keyword present_keywords text_lower then 0.6
      else if any_keyword minor_keywords text_lower then 0.3
      else if any_keyword none_keywords text_lower then 0.1
      else 0.5)"

definition parse_text_response :: "py_builtins \<Rightarrow> pystr \<Rightarrow> QwenHallucinationResponse" where
  "parse_text_response env text_response =
     (let text_lower = lower env text_response;
          score = keyword_score text_lower
      in \<lparr> hallucination_score = score, confidence = 0.7,
           explanation =
             JStr ([0x57FA, 0x4E8E, 0x6587, 0x672C, 0x5206, 0x6790, 0x7684, 0x8BC4, 0x4F30, 0x3A, 0x20]
                   @ take 200 text_response @ ascii ''...''),
           success_q = True, error_message_q = None \<rparr>)"

text \<open>The outer \<open>except Exception\<close> of \<open>evaluate_hallucination\<close>.\<close>

definition qwen_except :: "py_error \<Rightarrow> QwenHallucinationResponse" where
  "qwen_except e =
     \<lparr> hallucination_score = 0.5, confidence = 0,
       explanation = JStr [0x8C03, 0x7528, 0x5F02, 0x5E38],
       success_q = False,
       error_message_q = Some ([0x8C03, 0x7528, 0x5F02, 0x5E38, 0x3A, 0x20] @ str_exc e) \<rparr>"

text \<open>
  The body of the inner \<open>try\<close>: the reply parsed as JSON and its three members read.
  Only \<open>json.JSONDecodeError\<close> is caught here; anything else reaches the outer handler.
\<close>

definition parse_json_response :: "py_builtins \<Rightarrow> pystr \<Rightarrow> QwenHallucinationResponse" where
  "parse_json_response env generated_response =
     (case json_loads env generated_response of
        Inl (JSONDecodeError m) \<Rightarrow> parse_text_response env generated_response
      | Inl e \<Rightarrow> qwen_except e
      | Inr eval_result \<Rightarrow>
          (case json_get eval_result (ascii ''hallucination_score'') (JNum 0.5) of
             Inl e \<Rightarrow> qwen_except e
           | Inr hv \<Rightarrow>
          (case py_float env hv of
             Inl e \<Rightarrow> qwen_except e
           | Inr h \<Rightarrow>
          (case json_get eval_result (ascii ''confidence'') (JNum 0.5) of
             Inl e \<Rightarrow> qwen_except e
           | Inr cv \<Rightarrow>
          (case py_float env cv of
             Inl e \<Rightarrow> qwen_except e
           | Inr c \<Rightarrow>
          (case json_get eval_result (ascii ''explanation'') (JStr [0x8BC4, 0x4F30, 0x5B8C, 0x6210]) of
             Inl e \<Rightarrow> qwen_except e
           | Inr ex \<Rightarrow>
               \<lparr> hallucination_score = h, confidence = c, explanation = ex,
                 success_q = True, error_message_q = None \<rparr>))))))"

definition evaluate_hallucination ::
  "py_builtins \<Rightarrow> (generation_request \<Rightarrow> generation_outcome) \<Rightarrow> pystr \<Rightarrow> pystr list \<Rightarrow>
     QwenModel \<Rightarrow> real \<Rightarrow> int \<Rightarrow> QwenHallucinationResponse" where
  "evaluate_hallucination env call gen_text src_texts model temperature max_tokens =
     (if strip gen_text = [] then
        \<lparr> hallucination_score = 1, confidence = 1,
          explanation = JStr [0x751F, 0x6210, 0x6587, 0x672C, 0x4E3A, 0x7A7A, 0xFF0C, 0x89C6, 0x4E3A,
                              0x5B8C, 0x5168, 0x5E7B, 0x89C9],
          success_q = False,
          error_message_q = Some [0x751F, 0x6210, 0x6587, 0x672C, 0x4E0D, 0x80FD, 0x4E3A, 0x7A7A] \<rparr>
      else if src_texts = [] \<or> \<not> list_ex (\<lambda>t. strip t \<noteq> []) src_texts then
        \<lparr> hallucination_score = 1, confidence = 0,
          explanation = JStr [0x7F3A, 0x5C11, 0x53C2, 0x8003, 0x6587, 0x6863, 0xFF0C, 0x65E0, 0x6CD5,
                              0x8FDB, 0x884C, 0x51C6, 0x786E, 0x8BC4, 0x4F30],
          success_q = False,
          error_message_q = Some [0x53C2, 0x8003, 0x6587, 0x6863, 0x4E0D, 0x80FD, 0x4E3A, 0x7A7A] \<rparr>
      else
        (case call \<lparr> req_model = model_value model, req_generated_text = gen_text,
                     req_source_texts = src_texts, req_temperature = temperature,
                     req_max_tokens = max_tokens \<rparr> of
           CallRaises e \<Rightarrow> qwen_except e
         | CallReturns status_code message choices \<Rightarrow>
             if status_code = 200 then
               (case choices of
                  None \<Rightarrow>
                    \<lparr> hallucination_score = 0.5, confidence = 0,
                      explanation = JStr [0x41, 0x50, 0x49, 0x54CD, 0x5E94, 0x683C, 0x5F0F, 0x5F02,
                                          0x5E38],
                      success_q = False,
                      error_message_q =
                        Some ([0x54CD, 0x5E94, 0x4E2D, 0x7F3A, 0x5C11] @ ascii ''choices''
                              @ [0x5B57, 0x6BB5]) \<rparr>
                | Some (Inl e) \<Rightarrow> qwen_except e
                | Some (Inr content) \<Rightarrow> parse_json_response env (strip content))
             else
               \<lparr> hallucination_score = 0.5, confidence = 0,
                 explanation = JStr [0x41, 0x50, 0x49, 0x8C03, 0x7528, 0x5931, 0x8D25],
                 success_q = False,
                 error_message_q =
                   Some ([0x72B6, 0x6001, 0x7801, 0x20] @ str_int status_code @ ascii '': ''
                         @ (case message of None \<Rightarrow> ascii ''Unknown error'' | Some m \<Rightarrow> m)) \<rparr>))"


section \<open>src/integrated\_hallucination\_evaluator.py: the combiner\<close>

datatype EvaluationMethod = HHEM_ONLY | QWEN_ONLY | BOTH | ENSEMBLE

record IntegratedEvaluationResult =
  method_used :: EvaluationMethod
  success :: bool
  hhem_score :: "real option"
  hhem_success :: bool
  hhem_interpretation :: "pystr option"
  qwen_hallucination_score :: "real option"
  qwen_confidence :: "real option"
  qwen_success :: bool
  qwen_explanation :: "json option"
  qwen_interpretation :: "pystr option"
  ensemble_score :: "real option"
  ensemble_confidence :: "real option"
  ensemble_interpretation :: "pystr option"
  error_messages :: "pystr list"

text \<open>\<open>IntegratedEvaluationResult(method_used=method)\<close>: every other field at its default.\<close>

definition new_result :: "EvaluationMethod \<Rightarrow> IntegratedEvaluationResult" where
  "new_result m =
     \<lparr> method_used = m, success = False,
       hhem_score = None, hhem_success = False, hhem_interpretation = None,
       qwen_hallucination_score = None, qwen_confidence = None, qwen_success = False,
       qwen_explanation = None, qwen_interpretation = None,
       ensemble_score = None, ensemble_confidence = None, ensemble_interpretation = None,
       error_messages = [] \<rparr>"


text \<open>\<open>statistics.mean\<close>: raises on an empty list.\<close>

definition mean :: "real list \<Rightarrow> py_error + real" where
  "mean xs = (if xs = [] then Inl StatisticsError
              else truediv (sum_list xs) (real (length xs)))"









section \<open>src/ragtruth\_loader.py: the sample repository\<close>

datatype TaskType = SUMMARY | QA | TASK_ALL

fun task_value :: "TaskType \<Rightarrow> pystr" where
  "task_value SUMMARY = ascii ''Summary''"
| "task_value QA = ascii ''QA''"
| "task_value TASK_ALL = ascii ''ALL''"

datatype SplitType = TRAIN | TEST | SPLIT_ALL

fun split_value :: "SplitType \<Rightarrow> pystr" where
  "split_value TRAIN = ascii ''train''"
| "split_value TEST = ascii ''test''"
| "split_value SPLIT_ALL = ascii ''all''"

record HallucinationLabel =
  label_start :: int
  label_end :: int
  label_text :: pystr
  label_type :: pystr
  meta :: pystr
  due_to_null :: "bool option"
  implicit_true :: "bool option"

text \<open>
  \<open>RAGtruthResponse\<close>; its fields \<open>id\<close>, \<open>source_id\<close> and \<open>response\<close> are renamed
  \<open>response_id\<close>, \<open>response_source_id\<close> and \<open>response_text\<close>.
\<close>

record RAGtruthResponse =
  response_id :: pystr
  response_source_id :: pystr
  model :: pystr
  temperature :: real
  labels :: "HallucinationLabel list"
  split :: pystr
  quality :: pystr
  response_text :: pystr

definition has_hallucination :: "RAGtruthResponse \<Rightarrow> bool" where
  "has_hallucination r \<longleftrightarrow> length (labels r) > 0"

text \<open>The field \<open>source_info\<close> holds a string, a JSON object or some other JSON value.\<close>

datatype source_info_value = InfoStr pystr | InfoDict "(pystr \<times> json) list" | InfoOther json

text \<open>\<open>RAGtruthSource\<close>; its field \<open>source\<close> is renamed \<open>source_name\<close>.\<close>

record RAGtruthSource =
  source_id :: pystr
  task_type :: pystr
  source_name :: pystr
  source_info :: source_info_value
  prompt :: pystr

record RAGtruthSample =
  source :: RAGtruthSource
  response :: RAGtruthResponse

text \<open>The loader, represented by the records its two files hold.\<close>

record RAGtruthLoader =
  load_responses :: "RAGtruthResponse list"
  load_sources :: "RAGtruthSource list"

text \<open>
  \<open>{source.source_id: source for source in sources}\<close>: a later record replaces an
  earlier one with the same key.
\<close>

definition source_map_of :: "RAGtruthSource list \<Rightarrow> (pystr \<rightharpoonup> RAGtruthSource)" where
  "source_map_of sources = foldl (\<lambda>m s. m(source_id s \<mapsto> s)) Map.empty sources"

text \<open>The filter loop: \<open>False\<close> stands for \<open>continue\<close>.\<close>

definition keep_response ::
  "TaskType \<Rightarrow> SplitType \<Rightarrow> bool option \<Rightarrow> (pystr \<rightharpoonup> RAGtruthSource) \<Rightarrow>
     RAGtruthResponse \<Rightarrow> bool" where
  "keep_response tt sp hh source_map r =
     (if tt \<noteq> TASK_ALL \<and>
         (case source_map (response_source_id r) of
            None \<Rightarrow> True
          | Some s \<Rightarrow> task_type s \<noteq> task_value tt) then False
      else if sp \<noteq> SPLIT_ALL \<and> split r \<noteq> split_value sp then False
      else if (case hh of None \<Rightarrow> False | Some b \<Rightarrow> has_hallucination r \<noteq> b) then False
      else True)"

text \<open>The loop that builds the samples: a response without a source record is passed over.\<close>

fun make_samples ::
  "(pystr \<rightharpoonup> RAGtruthSource) \<Rightarrow> RAGtruthResponse list \<Rightarrow> RAGtruthSample list" where
  "make_samples source_map [] = []"
| "make_samples source_map (r # rs) =
     (case source_map (response_source_id r) of
        Some s \<Rightarrow> \<lparr> source = s, response = r \<rparr> # make_samples source_map rs
      | None \<Rightarrow> make_samples source_map rs)"

text \<open>The samples before the sampling step.\<close>

definition filtered_samples ::
  "RAGtruthLoader \<Rightarrow> TaskType \<Rightarrow> SplitType \<Rightarrow> bool option \<Rightarrow> RAGtruthSample list" where
  "filtered_samples loader tt sp hh =
     (let responses = load_responses loader;
          sources = load_sources loader;
          source_map = source_map_of sources;
          filtered_responses = filter (keep_response tt sp hh source_map) responses
      in make_samples source_map filtered_responses)"

text \<open>
  The module \<open>random\<close>: a generator state \<open>'g\<close> shared by all callers, \<open>random.seed\<close>
  that replaces the state by one computed from its argument, and \<open>random.sample\<close> that
  reads and advances the state.
\<close>

record ('g, 'a) py_random =
  seed :: "int \<Rightarrow> 'g"
  sample :: "'g \<Rightarrow> 'a list \<Rightarrow> nat \<Rightarrow> 'a list \<times> 'g"

text \<open>
  The sampling step, from the generator state \<open>g\<close> the call starts in. \<open>random.sample\<close>
  raises \<open>ValueError\<close> for a negative count; a count above the population size cannot
  reach it here.
\<close>

definition random_sampling ::
  "('g, 'a) py_random \<Rightarrow> 'g \<Rightarrow> 'a list \<Rightarrow> int option \<Rightarrow> int option \<Rightarrow>
     (py_error + 'a list) \<times> 'g" where
  "random_sampling rng g samples max_samples random_seed =
     (case max_samples of
        None \<Rightarrow> (Inr samples, g)
      | Some k \<Rightarrow>
          if k \<noteq> 0 \<and> int (length samples) > k then
            (let g1 = (case random_seed of None \<Rightarrow> g | Some n \<Rightarrow> seed rng n)
             in if k < 0
                then (Inl (ValueError (ascii ''Sample larger than population or is negative'')), g1)
                else (case sample rng g1 samples (nat k) of (chosen, g2) \<Rightarrow> (Inr chosen, g2)))
          else (Inr samples, g))"

definition get_samples ::
  "RAGtruthLoader \<Rightarrow> ('g, RAGtruthSample) py_random \<Rightarrow> 'g \<Rightarrow> TaskType \<Rightarrow> SplitType \<Rightarrow>
     bool option \<Rightarrow> int option \<Rightarrow> int option \<Rightarrow> (py_error + RAGtruthSample list) \<times> 'g" where
  "get_samples loader rng g tt sp hh max_samples random_seed =
     random_sampling rng g (filtered_samples loader tt sp hh) max_samples random_seed"

section \<open>examples/ragtruth\_evaluation.py: EvaluationMetrics\<close>

record EvaluationMetrics =
  total_samples :: int
  successful_evaluations :: int
  true_positives :: int
  false_positives :: int
  true_negatives :: int
  false_negatives :: int
  hhem_success_rate :: real
  qwen_success_rate :: real
  ensemble_success_rate :: real
  hallucination_scores :: "real list"
  non_hallucination_scores :: "real list"

definition accuracy :: "EvaluationMetrics \<Rightarrow> py_error + real" where
  "accuracy m =
     (let total = true_positives m + false_positives m + true_negatives m + false_negatives m
      in if total = 0 then Inr 0
         else truediv (real_of_int (true_positives m + true_negatives m)) (real_of_int total))"

definition precision :: "EvaluationMetrics \<Rightarrow> py_error + real" where
  "precision m =
     (if true_positives m + false_positives m = 0 then Inr 0
      else truediv (real_of_int (true_positives m))
                   (real_of_int (true_positives m + false_positives m)))"

definition recall :: "EvaluationMetrics \<Rightarrow> py_error + real" where
  "recall m =
     (if true_positives m + false_negatives m = 0 then Inr 0
      else truediv (real_of_int (true_positives m))
                   (real_of_int (true_positives m + false_negatives m)))"

definition f1_score :: "EvaluationMetrics \<Rightarrow> py_error + real" where
  "f1_score m =
     (case precision m of Inl e \<Rightarrow> Inl e | Inr p \<Rightarrow>
      case recall m of Inl e \<Rightarrow> Inl e | Inr r \<Rightarrow>
        if p + r = 0 then Inr 0
        else truediv (2 * (p * r)) (p + r))"

text \<open>A tally with the four confusion counters set and everything else at its default.\<close>

definition tally :: "int \<Rightarrow> int \<Rightarrow> int \<Rightarrow> int \<Rightarrow> EvaluationMetrics" where
  "tally tp fp tn fn =
     \<lparr> total_samples = 0, successful_evaluations = 0,
       true_positives = tp, false_positives = fp,
       true_negatives = tn, false_negatives = fn,
       hhem_success_rate = 0, qwen_success_rate = 0, ensemble_success_rate = 0,
       hallucination_scores = [], non_hallucination_scores = [] \<rparr>"

text \<open>The ratios the specification names, with a zero denominator giving 0.\<close>

definition ratio :: "real \<Rightarrow> real \<Rightarrow> real" where
  "ratio a b = (if b = 0 then 0 else a / b)"

section \<open>examples/ragtruth\_evaluation.py: evaluate\_on\_dataset\<close>

text \<open>
  The prediction of one sample inside \<open>if result.success\<close>: the \<open>if/elif\<close> chain that
  sets \<open>predicted_hallucination\<close> and \<open>score_to_use\<close>, which start as \<open>False\<close> and
  \<open>None\<close>. The threshold is the attribute \<open>hallucination_threshold\<close>.
\<close>

definition predict_on_dataset ::
  "real \<Rightarrow> EvaluationMethod \<Rightarrow> IntegratedEvaluationResult \<Rightarrow> bool \<times> real option" where
  "predict_on_dataset hallucination_threshold method r =
     (case (if method = HHEM_ONLY then hhem_score r else None) of
        Some s \<Rightarrow> (s > hallucination_threshold, Some s)
      | None \<Rightarrow>
     (case (if method = QWEN_ONLY then qwen_hallucination_score r else None) of
        Some s \<Rightarrow> (s > hallucination_threshold, Some s)
      | None \<Rightarrow>
     (case (if method \<in> set [BOTH, ENSEMBLE] then ensemble_score r else None) of
        Some s \<Rightarrow> (s > hallucination_threshold, Some s)
      | None \<Rightarrow> (False, None))))"

text \<open>The confusion-matrix update.\<close>

definition count_confusion :: "bool \<Rightarrow> bool \<Rightarrow> EvaluationMetrics \<Rightarrow> EvaluationMetrics" where
  "count_confusion predicted actual m =
     (if predicted \<and> actual then m\<lparr> true_positives := true_positives m + 1 \<rparr>
      else if predicted \<and> \<not> actual then m\<lparr> false_positives := false_positives m + 1 \<rparr>
      else if \<not> predicted \<and> \<not> actual then m\<lparr> true_negatives := true_negatives m + 1 \<rparr>
      else if \<not> predicted \<and> actual then m\<lparr> false_negatives := false_negatives m + 1 \<rparr>
      else m)"

text \<open>
  The state of the loop: the metrics and the three local success counters. One step
  takes what the loop reads of a sample: the outcome of \<open>evaluator.evaluate\<close> and the
  sample's label \<open>has_hallucination\<close>. An exception is caught and the sample passed over.
\<close>

record dataset_state =
  metrics :: EvaluationMetrics
  hhem_successes :: int
  qwen_successes :: int
  ensemble_successes :: int

definition on_dataset_step ::
  "real \<Rightarrow> EvaluationMethod \<Rightarrow> dataset_state \<Rightarrow>
     (py_error + IntegratedEvaluationResult) \<times> bool \<Rightarrow> dataset_state" where
  "on_dataset_step hallucination_threshold method st obs =
     (case obs of
        (Inl e, actual_hallucination) \<Rightarrow> st
      | (Inr r, actual_hallucination) \<Rightarrow>
          if success r then
            (let m1 = (metrics st)\<lparr> successful_evaluations :=
                                      successful_evaluations (metrics st) + 1 \<rparr>;
                 (predicted_hallucination, score_to_use) =
                    predict_on_dataset hallucination_threshold method r;
                 m2 = count_confusion predicted_hallucination actual_hallucination m1;
                 m3 = (case score_to_use of
                         None \<Rightarrow> m2
                       | Some s \<Rightarrow>
                           if actual_hallucination
                           then m2\<lparr> hallucination_scores := hallucination_scores m2 @ [s] \<rparr>
                           else m2\<lparr> non_hallucination_scores :=
                                     non_hallucination_scores m2 @ [s] \<rparr>)
             in \<lparr> metrics = m3,
                  hhem_successes = hhem_successes st + (if hhem_success r then 1 else 0),
                  qwen_successes = qwen_successes st + (if qwen_success r then 1 else 0),
                  ensemble_successes =
                    ensemble_successes st + (if ensemble_score r \<noteq> None then 1 else 0) \<rparr>)
          else st)"

definition evaluate_on_dataset ::
  "real \<Rightarrow> EvaluationMethod \<Rightarrow> ((py_error + IntegratedEvaluationResult) \<times> bool) list \<Rightarrow>
     EvaluationMetrics" where
  "evaluate_on_dataset hallucination_threshold method samples =
     (let st0 = \<lparr> metrics = (tally 0 0 0 0)\<lparr> total_samples := int (length samples) \<rparr>,
                  hhem_successes = 0, qwen_successes = 0, ensemble_successes = 0 \<rparr>;
          st = foldl (on_dataset_step hallucination_threshold method) st0 samples;
          m = metrics st
      in if total_samples m > 0 then
           m\<lparr> hhem_success_rate := real_of_int (hhem_successes st) / real_of_int (total_samples m),
              qwen_success_rate := real_of_int (qwen_successes st) / real_of_int (total_samples m),
              ensemble_success_rate :=
                real_of_int (ensemble_successes st) / real_of_int (total_samples m) \<rparr>
         else m)"

section \<open>examples/ragtruth\_large\_scale\_evaluation.py: evaluate\_samples\<close>

text \<open>
  \<open>EvaluationResults\<close>, its counters and score lists; the field names carry the suffix
  \<open>_r\<close>. The derived ratios and the elapsed time, filled in after the loop, are not
  part of the model.
\<close>

record EvaluationResults =
  total_samples_r :: int
  successful_evaluations_r :: int
  true_positives_r :: int
  false_positives_r :: int
  true_negatives_r :: int
  false_negatives_r :: int
  hallucination_scores_r :: "real list"
  non_hallucination_scores_r :: "real list"

text \<open>
  The \<open>if/elif/else\<close> chain that picks the score and the prediction; \<open>None\<close> stands
  for the final \<open>continue\<close>. The thresholds are the attributes
  \<open>hallucination_threshold\<close> and \<open>qwen_threshold\<close>.
\<close>

definition classify_sample ::
  "real \<Rightarrow> real \<Rightarrow> EvaluationMethod \<Rightarrow> IntegratedEvaluationResult \<Rightarrow> (real \<times> bool) option" where
  "classify_sample hallucination_threshold qwen_threshold method r =
     (case (if method = HHEM_ONLY then hhem_score r else None) of
        Some s \<Rightarrow> Some (s, s < hallucination_threshold)
      | None \<Rightarrow>
     (case (if method = QWEN_ONLY then qwen_hallucination_score r else None) of
        Some s \<Rightarrow> Some (s, s > qwen_threshold)
      | None \<Rightarrow>
     (case (if method \<in> set [BOTH, ENSEMBLE] then ensemble_score r else None) of
        Some s \<Rightarrow> Some (s, s > hallucination_threshold)
      | None \<Rightarrow> None)))"

definition count_confusion_r :: "bool \<Rightarrow> bool \<Rightarrow> EvaluationResults \<Rightarrow> EvaluationResults" where
  "count_confusion_r predicted actual m =
     (if predicted \<and> actual then m\<lparr> true_positives_r := true_positives_r m + 1 \<rparr>
      else if predicted \<and> \<not> actual then m\<lparr> false_positives_r := false_positives_r m + 1 \<rparr>
      else if \<not> predicted \<and> \<not> actual then m\<lparr> true_negatives_r := true_negatives_r m + 1 \<rparr>
      else if \<not> predicted \<and> actual then m\<lparr> false_negatives_r := false_negatives_r m + 1 \<rparr>
      else m)"

text \<open>
  One step of the loop, from what it reads of a sample: \<open>str(sample.source.source_info)\<close>,
  the outcome of \<open>evaluator.evaluate\<close>, and the label.
\<close>

definition evaluate_samples_step ::
  "real \<Rightarrow> real \<Rightarrow> EvaluationMethod \<Rightarrow> EvaluationResults \<Rightarrow>
     pystr \<times> (py_error + IntegratedEvaluationResult) \<times> bool \<Rightarrow> EvaluationResults" where
  "evaluate_samples_step hallucination_threshold qwen_threshold method results obs =
     (case obs of
        (source_info_str, outcome, actual_hallucination) \<Rightarrow>
          if length (strip source_info_str) < 10 then results
          else
            (case outcome of
               Inl e \<Rightarrow> results
             | Inr r \<Rightarrow>
                 if success r then
                   (let r1 = results\<lparr> successful_evaluations_r :=
                                        successful_evaluations_r results + 1 \<rparr>
                    in case classify_sample hallucination_threshold qwen_threshold method r of
                         None \<Rightarrow> r1
                       | Some (s, predicted_hallucination) \<Rightarrow>
                           (let r2 = count_confusion_r predicted_hallucination
                                       actual_hallucination r1
                            in if actual_hallucination
                               then r2\<lparr> hallucination_scores_r :=
                                         hallucination_scores_r r2 @ [s] \<rparr>
                               else r2\<lparr> non_hallucination_scores_r :=
                                         non_hallucination_scores_r r2 @ [s] \<rparr>))
                 else results))"

definition evaluate_samples ::
  "real \<Rightarrow> real \<Rightarrow> EvaluationMethod \<Rightarrow>
     (pystr \<times> (py_error + IntegratedEvaluationResult) \<times> bool) list \<Rightarrow> EvaluationResults" where
  "evaluate_samples hallucination_threshold qwen_threshold method samples =
     foldl (evaluate_samples_step hallucination_threshold qwen_threshold method)
       \<lparr> total_samples_r = int (length samples), successful_evaluations_r = 0,
         true_positives_r = 0, false_positives_r = 0, true_negatives_r = 0,
         false_negatives_r = 0, hallucination_scores_r = [], non_hallucination_scores_r = [] \<rparr>
       samples"




section \<open>Example inputs\<close>

text \<open>
  Concrete backends and library functions for the worked examples below. The
  consistency service answers every request with status 200 and score 0.5; a second
  one answers with status 200 and the body \<open>{"score": null}\<close>. The
  judgment service answers with a fixed text. \<open>example_loads\<close> decodes the one JSON
  text \<open>{"hallucination_score": 0.2, "confidence": 0.0}\<close> and rejects every other
  text, as \<open>json.loads\<close> does for the plain sentences used here; \<open>ascii_lower\<close>
  is \<open>str.lower\<close> on ASCII text.
\<close>

definition example_post :: "hhem_payload \<Rightarrow> http_outcome" where
  "example_post p = PostReturns 200 [] (Inr (JObj [(ascii ''score'', JNum 0.5)]))"


definition example_call :: "pystr \<Rightarrow> generation_request \<Rightarrow> generation_outcome" where
  "example_call content req = CallReturns 200 None (Some (Inr content))"

definition json_text :: pystr where
  "json_text =
     [0x7B, 0x22, 0x68, 0x61, 0x6C, 0x6C, 0x75, 0x63, 0x69, 0x6E, 0x61, 0x74, 0x69, 0x6F, 0x6E, 0x5F,
      0x73, 0x63, 0x6F, 0x72, 0x65, 0x22, 0x3A, 0x20, 0x30, 0x2E, 0x32, 0x2C, 0x20, 0x22, 0x63, 0x6F,
      0x6E, 0x66, 0x69, 0x64, 0x65, 0x6E, 0x63, 0x65, 0x22, 0x3A, 0x20, 0x30, 0x2E, 0x30, 0x7D]"

definition example_loads :: "pystr \<Rightarrow> py_error + json" where
  "example_loads s =
     (if s = json_text
      then Inr (JObj [(ascii ''hallucination_score'', JNum 0.2), (ascii ''confidence'', JNum 0)])
      else Inl (JSONDecodeError (ascii ''Expecting value'')))"

definition ascii_lower :: "pystr \<Rightarrow> pystr" where
  "ascii_lower s = map (\<lambda>c. if 65 \<le> c \<and> c \<le> 90 then c + 32 else c) s"

definition example_env :: py_builtins where
  "example_env =
     \<lparr> lower = ascii_lower, json_loads = example_loads,
       float_of_str = (\<lambda>s. Inl (ValueError (ascii ''could not convert string to float''))) \<rparr>"



text \<open>
  A toy generator for the sampling examples: the state is a number, seeding sets it,
  and sampling takes the first \<open>k\<close> elements of the population rotated by the state.
\<close>

definition example_random :: "(nat, 'a) py_random" where
  "example_random =
     \<lparr> seed = (\<lambda>n. nat \<bar>n\<bar>), sample = (\<lambda>g xs k. (take k (rotate g xs), Suc g)) \<rparr>"


text \<open>
  A result of the consistency backend alone with the low score 0.2, and a small
  dataset: three responses, the third with a \<open>source_id\<close> that no source record has.
\<close>

definition example_low_consistency :: IntegratedEvaluationResult where
  "example_low_consistency =
     (new_result HHEM_ONLY)\<lparr> success := True, hhem_score := Some 0.2, hhem_success := True,
       hhem_interpretation :=
         Some [0x4E0D, 0x592A, 0x4E00, 0x81F4, 0x20, 0x2D, 0x20, 0x751F, 0x6210, 0x6587, 0x672C,
               0x4E0E, 0x6E90, 0x6587, 0x672C, 0x5B58, 0x5728, 0x4E25, 0x91CD, 0x5DEE, 0x5F02] \<rparr>"

definition example_response :: "pystr \<Rightarrow> pystr \<Rightarrow> RAGtruthResponse" where
  "example_response rid sid =
     \<lparr> response_id = rid, response_source_id = sid, model = ascii ''gpt-4'', temperature = 0.7,
       labels = [], split = ascii ''test'', quality = ascii ''good'',
       response_text = ascii ''Paris is in England'' \<rparr>"

definition example_source :: "pystr \<Rightarrow> RAGtruthSource" where
  "example_source sid =
     \<lparr> source_id = sid, task_type = ascii ''QA'', source_name = ascii ''MARCO'',
       source_info = InfoStr (ascii ''The Eiffel Tower is in Paris, France''),
       prompt = ascii ''Where is Paris?'' \<rparr>"

definition example_loader :: RAGtruthLoader where
  "example_loader =
     \<lparr> load_responses = [example_response (ascii ''0'') (ascii ''s1''),
                          example_response (ascii ''1'') (ascii ''s2''),
                          example_response (ascii ''2'') (ascii ''s9'')],
       load_sources = [example_source (ascii ''s1''), example_source (ascii ''s2'')] \<rparr>"

section \<open>Classification metrics\<close>

lemma accuracy_value:
  "accuracy m = Inr (ratio (real_of_int (true_positives m + true_negatives m))
      (real_of_int (true_positives m + false_positives m + true_negatives m + false_negatives m)))"
  by (simp add: accuracy_def truediv_def ratio_def Let_def)

lemma precision_value:
  "precision m = Inr (ratio (real_of_int (true_positives m))
      (real_of_int (true_positives m + false_positives m)))"
  by (simp add: precision_def truediv_def ratio_def)

lemma recall_value:
  "recall m = Inr (ratio (real_of_int (true_positives m))
      (real_of_int (true_positives m + false_negatives m)))"
  by (simp add: recall_def truediv_def ratio_def)

lemma f1_score_value:
  "f1_score m =
     Inr (ratio (2 * (ratio (real_of_int (true_positives m))
                            (real_of_int (true_positives m + false_positives m))
                    * ratio (real_of_int (true_positives m))
                            (real_of_int (true_positives m + false_negatives m))))
                (ratio (real_of_int (true_positives m))
                       (real_of_int (true_positives m + false_positives m))
                 + ratio (real_of_int (true_positives m))
                         (real_of_int (true_positives m + false_negatives m))))"
  by (simp add: f1_score_def precision_value recall_value truediv_def ratio_def)

text \<open>
  Claim C7. For every confusion tally, accuracy is (TP+TN)/(TP+FP+TN+FN), precision is
  TP/(TP+FP), recall is TP/(TP+FN) and f1 is 2PR/(P+R), where a ratio with a zero
  denominator is 0 and no property raises. With TP=3, FP=1, TN=4, FN=2 the accuracy is
  0.7, the precision 0.75, the recall 0.6 and f1 is 2/3, within 0.0005 of 0.667; with
  TP=FP=0 the precision is 0.
\<close>

theorem metrics_ratios:
  "accuracy m = Inr (ratio (real_of_int (true_positives m + true_negatives m))
      (real_of_int (true_positives m + false_positives m + true_negatives m + false_negatives m)))
   \<and> precision m = Inr (ratio (real_of_int (true_positives m))
          (real_of_int (true_positives m + false_positives m)))
   \<and> recall m = Inr (ratio (real_of_int (true_positives m))
          (real_of_int (true_positives m + false_negatives m)))
   \<and> (\<forall>p r. precision m = Inr p \<and> recall m = Inr r \<longrightarrow>
          f1_score m = Inr (ratio (2 * p * r) (p + r)))
   \<and> accuracy (tally 3 1 4 2) = Inr 0.7
   \<and> precision (tally 3 1 4 2) = Inr 0.75
   \<and> recall (tally 3 1 4 2) = Inr 0.6
   \<and> f1_score (tally 3 1 4 2) = Inr (2 / 3)
   \<and> \<bar>2 / 3 - 0.667\<bar> < (0.0005 :: real)
   \<and> precision (tally 0 0 tn fn) = Inr 0"
proof -
  have f1: "\<forall>p r. precision m = Inr p \<and> recall m = Inr r \<longrightarrow>
              f1_score m = Inr (ratio (2 * p * r) (p + r))"
    by (simp add: f1_score_def truediv_def ratio_def)
  have a: "accuracy (tally 3 1 4 2) = Inr 0.7"
    by (simp add: accuracy_def tally_def truediv_def)
  have p: "precision (tally 3 1 4 2) = Inr 0.75"
    by (simp add: precision_def tally_def truediv_def)
  have r: "recall (tally 3 1 4 2) = Inr 0.6"
    by (simp add: recall_def tally_def truediv_def)
  have f: "f1_score (tally 3 1 4 2) = Inr (2 / 3)"
    by (simp add: f1_score_def p r truediv_def)
  have z: "precision (tally 0 0 tn fn) = Inr 0"
    by (simp add: precision_def tally_def)
  have c: "\<bar>2 / 3 - 0.667\<bar> < (0.0005 :: real)"
    by simp
  show ?thesis
    using accuracy_value [of m] precision_value [of m] recall_value [of m] f1 a p r f z c
    by blast
qed

theorem metrics_ratios_witness:
  "precision (tally 3 1 4 2) = Inr 0.75 \<and> recall (tally 3 1 4 2) = Inr 0.6
   \<and> f1_score (tally 3 1 4 2) = Inr (ratio (2 * 0.75 * 0.6) (0.75 + 0.6))
   \<and> ratio (2 * 0.75 * 0.6) (0.75 + 0.6) = 2 / 3"
proof -
  have p: "precision (tally 3 1 4 2) = Inr 0.75" and r: "recall (tally 3 1 4 2) = Inr 0.6"
    using metrics_ratios [of "tally 3 1 4 2"] by blast+
  have "f1_score (tally 3 1 4 2) = Inr (ratio (2 * 0.75 * 0.6) (0.75 + 0.6))"
    using metrics_ratios [of "tally 3 1 4 2"] p r by blast
  moreover have "ratio (2 * 0.75 * 0.6) (0.75 + 0.6) = 2 / 3"
    by (simp add: ratio_def)
  ultimately show ?thesis using p r by blast
qed

section \<open>Input validation of the two backends\<close>

lemma dropWhile_all_iff: "(\<forall>x \<in> set (dropWhile P xs). P x) \<longleftrightarrow> (\<forall>x \<in> set xs. P x)"
  by (induction xs) auto

lemma strip_empty_iff: "strip s = [] \<longleftrightarrow> (\<forall>c \<in> set s. isspace c)"
  by (simp add: strip_def dropWhile_eq_Nil_conv dropWhile_all_iff)

lemma no_text_iff:
  "(src_texts = [] \<or> \<not> list_ex (\<lambda>t. strip t \<noteq> []) src_texts)
     \<longleftrightarrow> (\<forall>t \<in> set src_texts. \<forall>c \<in> set t. isspace c)"
  by (auto simp: list_ex_iff strip_empty_iff)

lemma evaluate_consistency_rejects:
  assumes "(\<forall>c \<in> set gen_text. isspace c) \<or> (\<forall>t \<in> set src_texts. \<forall>c \<in> set t. isspace c)"
  shows "\<not> success_h (evaluate_consistency post gen_text src_texts mname)
         \<and> (\<exists>m. error_message_h (evaluate_consistency post gen_text src_texts mname) = Some m
                \<and> m \<noteq> [])"
proof (cases "strip gen_text = []")
  case True
  then show ?thesis by (simp add: evaluate_consistency_def)
next
  case False
  with assms have "\<forall>t \<in> set src_texts. \<forall>c \<in> set t. isspace c"
    by (auto simp add: strip_empty_iff)
  then have "src_texts = [] \<or> \<not> list_ex (\<lambda>t. strip t \<noteq> []) src_texts"
    by (simp only: no_text_iff)
  with False show ?thesis by (auto simp add: evaluate_consistency_def)
qed

lemma evaluate_hallucination_rejects:
  assumes "(\<forall>c \<in> set gen_text. isspace c) \<or> (\<forall>t \<in> set src_texts. \<forall>c \<in> set t. isspace c)"
  shows "\<not> success_q (evaluate_hallucination env call gen_text src_texts qm temp max_tokens)
         \<and> (\<exists>m. error_message_q
                   (evaluate_hallucination env call gen_text src_texts qm temp max_tokens) = Some m
                \<and> m \<noteq> [])"
proof (cases "strip gen_text = []")
  case True
  then show ?thesis by (simp add: evaluate_hallucination_def)
next
  case False
  with assms have "\<forall>t \<in> set src_texts. \<forall>c \<in> set t. isspace c"
    by (auto simp add: strip_empty_iff)
  then have "src_texts = [] \<or> \<not> list_ex (\<lambda>t. strip t \<noteq> []) src_texts"
    by (simp only: no_text_iff)
  with False show ?thesis by (auto simp add: evaluate_hallucination_def)
qed

text \<open>
  Claim C4. When the candidate text is empty or all whitespace, or the list of
  reference texts is empty or holds only empty or all-whitespace strings, each backend
  returns a response with \<open>success\<close> false and a non-empty error message. Both
  operations are total functions into the response type: the checks come before any
  call that can raise, so the caller gets a value, whatever the transport would do.
\<close>

theorem blank_input_rejected:
  assumes "(\<forall>c \<in> set gen_text. isspace c) \<or> src_texts = []
           \<or> (\<forall>t \<in> set src_texts. \<forall>c \<in> set t. isspace c)"
  shows "\<not> success_h (evaluate_consistency post gen_text src_texts hhem_model)
       \<and> (\<exists>m. error_message_h (evaluate_consistency post gen_text src_texts hhem_model) = Some m
              \<and> m \<noteq> [])
       \<and> \<not> success_q (evaluate_hallucination env call gen_text src_texts qm temp max_tokens)
       \<and> (\<exists>m. error_message_q
                 (evaluate_hallucination env call gen_text src_texts qm temp max_tokens) = Some m
              \<and> m \<noteq> [])"
proof -
  from assms
  have h: "(\<forall>c \<in> set gen_text. isspace c) \<or> (\<forall>t \<in> set src_texts. \<forall>c \<in> set t. isspace c)"
    by auto
  show ?thesis
    using evaluate_consistency_rejects [OF h] evaluate_hallucination_rejects [OF h] by blast
qed

theorem blank_input_rejected_witness:
  "\<not> success_h (evaluate_consistency example_post (ascii ''  '') [ascii ''Paris''] (ascii ''hhem_v2.3''))
   \<and> error_message_h
       (evaluate_consistency example_post (ascii ''  '') [ascii ''Paris''] (ascii ''hhem_v2.3''))
       = Some [0x751F, 0x6210, 0x6587, 0x672C, 0x4E0D, 0x80FD, 0x4E3A, 0x7A7A]
   \<and> \<not> success_q (evaluate_hallucination example_env (example_call json_text) (ascii ''  '')
          [ascii ''Paris''] QWEN_TURBO 0.1 2000)
   \<and> error_message_q (evaluate_hallucination example_env (example_call json_text) (ascii ''  '')
          [ascii ''Paris''] QWEN_TURBO 0.1 2000)
       = Some [0x751F, 0x6210, 0x6587, 0x672C, 0x4E0D, 0x80FD, 0x4E3A, 0x7A7A]"
proof -
  have h: "(\<forall>c \<in> set (ascii ''  ''). isspace c) \<or> [ascii ''Paris''] = []
           \<or> (\<forall>t \<in> set [ascii ''Paris'']. \<forall>c \<in> set t. isspace c)"
    by (simp add: ascii_def isspace_def)
  have s: "strip (ascii ''  '') = []"
    by (simp add: strip_def ascii_def isspace_def)
  have "error_message_h
       (evaluate_consistency example_post (ascii ''  '') [ascii ''Paris''] (ascii ''hhem_v2.3''))
       = Some [0x751F, 0x6210, 0x6587, 0x672C, 0x4E0D, 0x80FD, 0x4E3A, 0x7A7A]"
    by (simp add: evaluate_consistency_def s)
  moreover have "error_message_q (evaluate_hallucination example_env (example_call json_text)
          (ascii ''  '') [ascii ''Paris''] QWEN_TURBO 0.1 2000)
       = Some [0x751F, 0x6210, 0x6587, 0x672C, 0x4E0D, 0x80FD, 0x4E3A, 0x7A7A]"
    by (simp add: evaluate_hallucination_def s)
  ultimately show ?thesis
    using blank_input_rejected [OF h, of example_post "ascii ''hhem_v2.3''" example_env
        "example_call json_text" QWEN_TURBO "0.1" 2000]
    by blast
qed

section \<open>The combiner\<close>













lemma strip_examples:
  "strip (ascii ''Paris is in England'') \<noteq> []"
  "strip (ascii ''The Eiffel Tower is in Paris, France'') \<noteq> []"
  "strip (ascii '' '') = []"
  by (simp_all add: strip_def ascii_def isspace_def)






section \<open>The ensemble score of two successful backends\<close>








section \<open>The default weight of the judgment backend\<close>




section \<open>The keyword fallback of the judgment backend\<close>

lemma keyword_score_values: "keyword_score t \<in> {0.9, 0.6, 0.3, 0.1, 0.5}"
  by (simp add: keyword_score_def)

lemma keyword_score_half:
  "keyword_score t = 0.5 \<longleftrightarrow>
     \<not> any_keyword (severe_keywords @ present_keywords @ minor_keywords @ none_keywords) t"
  by (auto simp add: keyword_score_def any_keyword_def)

lemma parse_json_response_fallback:
  assumes "json_loads env content = Inl (JSONDecodeError m)"
  shows "parse_json_response env content = parse_text_response env content"
  using assms by (simp add: parse_json_response_def)

lemma evaluate_hallucination_content:
  assumes "strip gen_text \<noteq> []" "list_ex (\<lambda>t. strip t \<noteq> []) src_texts"
    and "call \<lparr> req_model = model_value qm, req_generated_text = gen_text,
                req_source_texts = src_texts, req_temperature = temp,
                req_max_tokens = max_tokens \<rparr> = CallReturns 200 msg (Some (Inr content))"
  shows "evaluate_hallucination env call gen_text src_texts qm temp max_tokens =
           parse_json_response env (strip content)"
proof -
  from assms(2) have "src_texts \<noteq> []" by auto
  with assms show ?thesis
    by (simp add: evaluate_hallucination_def)
qed

text \<open>
  Claim C3, as amended. When the call succeeds (status 200 with a content) and the
  stripped content is not valid JSON, that is \<open>json.loads\<close> raises
  \<open>JSONDecodeError\<close>, the evaluator returns the keyword estimate: the score is 0.9,
  0.6, 0.3 or 0.1 for the first keyword list with a match in the lower-cased content
  and 0.5 when no keyword occurs in it, so it is one of five fixed values; the
  confidence is 0.7 and \<open>success\<close> is true.
\<close>

theorem keyword_fallback:
  assumes "strip gen_text \<noteq> []" "list_ex (\<lambda>t. strip t \<noteq> []) src_texts"
    and "call \<lparr> req_model = model_value qm, req_generated_text = gen_text,
                req_source_texts = src_texts, req_temperature = temp,
                req_max_tokens = max_tokens \<rparr> = CallReturns 200 msg (Some (Inr content))"
    and "json_loads env (strip content) = Inl (JSONDecodeError m)"
  shows "hallucination_score (evaluate_hallucination env call gen_text src_texts qm temp max_tokens)
           = keyword_score (lower env (strip content))
       \<and> hallucination_score (evaluate_hallucination env call gen_text src_texts qm temp max_tokens)
           \<in> {0.9, 0.6, 0.3, 0.1, 0.5}
       \<and> (hallucination_score (evaluate_hallucination env call gen_text src_texts qm temp max_tokens)
            = 0.5
          \<longleftrightarrow> \<not> any_keyword (severe_keywords @ present_keywords @ minor_keywords @ none_keywords)
                  (lower env (strip content)))
       \<and> confidence (evaluate_hallucination env call gen_text src_texts qm temp max_tokens) = 0.7
       \<and> success_q (evaluate_hallucination env call gen_text src_texts qm temp max_tokens)
       \<and> error_message_q (evaluate_hallucination env call gen_text src_texts qm temp max_tokens)
           = None"
proof -
  have "evaluate_hallucination env call gen_text src_texts qm temp max_tokens =
          parse_text_response env (strip content)"
    using evaluate_hallucination_content [where call = call and env = env, OF assms(1-3)]
      parse_json_response_fallback [OF assms(4)]
    by simp
  then show ?thesis
    using keyword_score_values [of "lower env (strip content)"]
      keyword_score_half [of "lower env (strip content)"]
    by (simp add: parse_text_response_def Let_def)
qed

lemma example_text_reply:
  assumes "strip content \<noteq> json_text"
  shows "evaluate_hallucination example_env (example_call content) (ascii ''Paris is in England'')
           [ascii ''The Eiffel Tower is in Paris, France''] QWEN_TURBO 0.1 2000 =
         parse_text_response example_env (strip content)"
proof -
  have "json_loads example_env (strip content) = Inl (JSONDecodeError (ascii ''Expecting value''))"
    using assms by (simp add: example_env_def example_loads_def)
  then show ?thesis
    using evaluate_hallucination_content [of "ascii ''Paris is in England''"
        "[ascii ''The Eiffel Tower is in Paris, France'']" "example_call content" QWEN_TURBO
        "0.1" 2000 None content example_env]
    by (simp add: strip_examples example_call_def parse_json_response_fallback)
qed

theorem keyword_fallback_witness:
  "hallucination_score
     (evaluate_hallucination example_env (example_call [0x65E0, 0x5E7B, 0x89C9])
        (ascii ''Paris is in England'') [ascii ''The Eiffel Tower is in Paris, France'']
        QWEN_TURBO 0.1 2000) = 0.1
   \<and> confidence
     (evaluate_hallucination example_env (example_call [0x65E0, 0x5E7B, 0x89C9])
        (ascii ''Paris is in England'') [ascii ''The Eiffel Tower is in Paris, France'']
        QWEN_TURBO 0.1 2000) = 0.7"
proof -
  have s: "strip [0x65E0, 0x5E7B, 0x89C9] = [0x65E0, 0x5E7B, 0x89C9]"
    by (simp add: strip_def isspace_def)
  have l: "json_loads example_env (strip [0x65E0, 0x5E7B, 0x89C9])
             = Inl (JSONDecodeError (ascii ''Expecting value''))"
    by (simp add: s example_env_def example_loads_def json_text_def)
  have c: "example_call [0x65E0, 0x5E7B, 0x89C9]
             \<lparr> req_model = model_value QWEN_TURBO,
               req_generated_text = ascii ''Paris is in England'',
               req_source_texts = [ascii ''The Eiffel Tower is in Paris, France''],
               req_temperature = 0.1, req_max_tokens = 2000 \<rparr>
           = CallReturns 200 None (Some (Inr [0x65E0, 0x5E7B, 0x89C9]))"
    by (simp add: example_call_def)
  have k: "keyword_score (lower example_env (strip [0x65E0, 0x5E7B, 0x89C9])) = 0.1"
    by (simp add: s example_env_def ascii_lower_def keyword_score_def any_keyword_def
        severe_keywords_def present_keywords_def minor_keywords_def none_keywords_def)
  have v: "list_ex (\<lambda>t. strip t \<noteq> []) [ascii ''The Eiffel Tower is in Paris, France'']"
    by (simp add: strip_examples)
  show ?thesis
    using keyword_fallback [where call = "example_call [0x65E0, 0x5E7B, 0x89C9]"
        and env = example_env, OF strip_examples(1) v c l] k
    by simp
qed

text \<open>
  Claim C3 as stated fails at this input: the reply "I am not sure" is not JSON and
  holds no keyword, and the fallback score is 0.5, none of 0.9, 0.6, 0.3 and 0.1.
\<close>

theorem keyword_fallback_fifth_value:
  "success_q
     (evaluate_hallucination example_env (example_call (ascii ''I am not sure''))
        (ascii ''Paris is in England'') [ascii ''The Eiffel Tower is in Paris, France'']
        QWEN_TURBO 0.1 2000)
   \<and> confidence
     (evaluate_hallucination example_env (example_call (ascii ''I am not sure''))
        (ascii ''Paris is in England'') [ascii ''The Eiffel Tower is in Paris, France'']
        QWEN_TURBO 0.1 2000) = 0.7
   \<and> hallucination_score
     (evaluate_hallucination example_env (example_call (ascii ''I am not sure''))
        (ascii ''Paris is in England'') [ascii ''The Eiffel Tower is in Paris, France'']
        QWEN_TURBO 0.1 2000) = 0.5
   \<and> hallucination_score
     (evaluate_hallucination example_env (example_call (ascii ''I am not sure''))
        (ascii ''Paris is in England'') [ascii ''The Eiffel Tower is in Paris, France'']
        QWEN_TURBO 0.1 2000) \<notin> {0.9, 0.6, 0.3, 0.1}"
proof -
  have s: "strip (ascii ''I am not sure'') = ascii ''I am not sure''"
    by (simp add: strip_def ascii_def isspace_def)
  have n: "strip (ascii ''I am not sure'') \<noteq> json_text"
    unfolding s by (simp add: ascii_def json_text_def)
  have k: "keyword_score (lower example_env (ascii ''I am not sure'')) = 0.5"
    by (simp add: example_env_def ascii_lower_def ascii_def keyword_score_def any_keyword_def
        severe_keywords_def present_keywords_def minor_keywords_def none_keywords_def)
  show ?thesis
    by (simp add: example_text_reply [OF n] parse_text_response_def Let_def s k)
qed

section \<open>The direction of the threshold in the two harnesses\<close>

text \<open>
  \<open>evaluate_samples\<close> (the large-scale harness) predicts a hallucination for a
  consistency score below the threshold and for a judgment or ensemble score above its
  threshold.
\<close>

lemma classify_sample_hhem:
  assumes "hhem_score r = Some s"
  shows "classify_sample t qt HHEM_ONLY r = Some (s, s < t)"
  using assms by (simp add: classify_sample_def)

lemma classify_sample_qwen:
  assumes "qwen_hallucination_score r = Some s"
  shows "classify_sample t qt QWEN_ONLY r = Some (s, s > qt)"
  using assms by (simp add: classify_sample_def)

lemma classify_sample_ensemble:
  assumes "ensemble_score r = Some s" "method = ENSEMBLE \<or> method = BOTH"
  shows "classify_sample t qt method r = Some (s, s > t)"
  using assms by (auto simp add: classify_sample_def)

text \<open>
  \<open>evaluate_on_dataset\<close> compares every score, the consistency score included, with
  \<open>>\<close>.
\<close>

lemma predict_on_dataset_hhem:
  assumes "hhem_score r = Some s"
  shows "predict_on_dataset t HHEM_ONLY r = (s > t, Some s)"
  using assms by (simp add: predict_on_dataset_def)

lemma predict_on_dataset_qwen:
  assumes "qwen_hallucination_score r = Some s"
  shows "predict_on_dataset t QWEN_ONLY r = (s > t, Some s)"
  using assms by (simp add: predict_on_dataset_def)

lemma predict_on_dataset_ensemble:
  assumes "ensemble_score r = Some s" "method = ENSEMBLE \<or> method = BOTH"
  shows "predict_on_dataset t method r = (s > t, Some s)"
  using assms by (auto simp add: predict_on_dataset_def)

text \<open>
  Claim C1 at a failing input. A sample that is labelled as hallucinated gets the
  consistency score 0.2 under HHEM\_ONLY, with threshold 0.5. The claim asks for the
  prediction "hallucination", since 0.2 is below 0.5. \<open>evaluate_samples\<close> predicts
  it and counts a true positive; \<open>evaluate_on_dataset\<close> predicts "no hallucination"
  and counts a false negative.
\<close>

theorem on_dataset_hhem_direction:
  "hhem_score example_low_consistency = Some 0.2
   \<and> classify_sample 0.5 0.2 HHEM_ONLY example_low_consistency = Some (0.2, True)
   \<and> predict_on_dataset 0.5 HHEM_ONLY example_low_consistency = (False, Some 0.2)
   \<and> true_positives_r
        (evaluate_samples 0.5 0.2 HHEM_ONLY
           [(ascii ''The Eiffel Tower is in Paris, France'', Inr example_low_consistency, True)]) = 1
   \<and> true_positives
        (evaluate_on_dataset 0.5 HHEM_ONLY [(Inr example_low_consistency, True)]) = 0
   \<and> false_negatives
        (evaluate_on_dataset 0.5 HHEM_ONLY [(Inr example_low_consistency, True)]) = 1"
proof -
  have h: "hhem_score example_low_consistency = Some 0.2"
    and s: "success example_low_consistency"
    by (simp_all add: example_low_consistency_def)
  have c: "classify_sample 0.5 0.2 HHEM_ONLY example_low_consistency = Some (0.2, True)"
    by (simp add: classify_sample_hhem [OF h])
  have p: "predict_on_dataset 0.5 HHEM_ONLY example_low_consistency = (False, Some 0.2)"
    by (simp add: predict_on_dataset_hhem [OF h])
  have l: "\<not> length (strip (ascii ''The Eiffel Tower is in Paris, France'')) < 10"
    by (simp add: strip_def ascii_def isspace_def)
  have tp: "true_positives_r
        (evaluate_samples 0.5 0.2 HHEM_ONLY
           [(ascii ''The Eiffel Tower is in Paris, France'', Inr example_low_consistency, True)]) = 1"
    by (simp add: evaluate_samples_def evaluate_samples_step_def l s classify_sample_hhem [OF h]
        count_confusion_r_def Let_def)
  have fn: "true_positives
        (evaluate_on_dataset 0.5 HHEM_ONLY [(Inr example_low_consistency, True)]) = 0"
    "false_negatives
        (evaluate_on_dataset 0.5 HHEM_ONLY [(Inr example_low_consistency, True)]) = 1"
    by (simp_all add: evaluate_on_dataset_def on_dataset_step_def s predict_on_dataset_hhem [OF h]
        count_confusion_def tally_def Let_def)
  show ?thesis
    using h c p tp fn by blast
qed

section \<open>The sample repository\<close>

lemma foldl_source_map:
  assumes "foldl (\<lambda>m s. m(source_id s \<mapsto> s)) m0 sources k = Some s"
  shows "(s \<in> set sources \<and> source_id s = k) \<or> m0 k = Some s"
  using assms
proof (induction sources arbitrary: m0)
  case Nil
  then show ?case by simp
next
  case (Cons a sources)
  from Cons.prems
  have "foldl (\<lambda>m s. m(source_id s \<mapsto> s)) (m0(source_id a \<mapsto> a)) sources k = Some s"
    by (simp only: foldl_Cons)
  from Cons.IH [OF this] show ?case
    by (auto split: if_splits)
qed

lemma source_map_of_Some:
  assumes "source_map_of sources k = Some s"
  shows "s \<in> set sources \<and> source_id s = k"
  using foldl_source_map [of Map.empty sources k s] assms
  by (simp add: source_map_of_def)

lemma make_samples_member:
  assumes "x \<in> set (make_samples source_map rs)"
  shows "response x \<in> set rs \<and> source_map (response_source_id (response x)) = Some (source x)"
  using assms
  by (induction rs) (auto split: option.splits)

text \<open>Every sample built pairs a loaded response with a loaded source of the same id.\<close>

lemma filtered_samples_joined:
  assumes "x \<in> set (filtered_samples loader tt sp hh)"
  shows "source_id (source x) = response_source_id (response x)
       \<and> source x \<in> set (load_sources loader)
       \<and> response x \<in> set (load_responses loader)"
proof -
  from assms
  have "x \<in> set (make_samples (source_map_of (load_sources loader))
                  (filter (keep_response tt sp hh (source_map_of (load_sources loader)))
                     (load_responses loader)))"
    by (simp add: filtered_samples_def Let_def)
  from make_samples_member [OF this]
  have m: "response x \<in> set (filter (keep_response tt sp hh (source_map_of (load_sources loader)))
                               (load_responses loader))"
    and s: "source_map_of (load_sources loader) (response_source_id (response x)) = Some (source x)"
    by simp_all
  from source_map_of_Some [OF s] m show ?thesis by simp
qed

text \<open>The sampling step returns the samples unchanged or what \<open>random.sample\<close> chose.\<close>

lemma random_sampling_cases:
  assumes "fst (random_sampling rng g samples max_samples random_seed) = Inr out"
  shows "out = samples \<or> (\<exists>g1 k. out = fst (sample rng g1 samples k))"
  using assms
  by (auto simp add: random_sampling_def Let_def split: option.splits if_splits prod.splits)
     (metis fst_conv)+

lemma random_sampling_all:
  assumes "max_samples = None \<or> (\<exists>k. max_samples = Some k \<and> (k = 0 \<or> int (length samples) \<le> k))"
  shows "random_sampling rng g samples max_samples random_seed = (Inr samples, g)"
  using assms
  by (auto simp add: random_sampling_def)

lemma random_sampling_seeded:
  "fst (random_sampling rng g1 samples max_samples (Some n)) =
   fst (random_sampling rng g2 samples max_samples (Some n))"
  by (simp add: random_sampling_def Let_def split: option.splits prod.splits)

text \<open>
  Claim C8. Provided \<open>random.sample\<close> returns elements of the population it is given,
  for every combination of filter arguments, sample count and seed, each sample that
  \<open>get_samples\<close> returns pairs a loaded response with a loaded source record whose
  \<open>source_id\<close> equals the response's; hence a response whose \<open>source_id\<close> no source
  record has is the response of no returned sample.
\<close>

theorem samples_are_joined:
  assumes "\<forall>g xs k. set (fst (sample rng g xs k)) \<subseteq> set xs"
    and "fst (get_samples loader rng g tt sp hh max_samples random_seed) = Inr out"
  shows "(\<forall>x \<in> set out.
            source_id (source x) = response_source_id (response x)
            \<and> source x \<in> set (load_sources loader)
            \<and> response x \<in> set (load_responses loader))
       \<and> (\<forall>r. response_source_id r \<notin> source_id ` set (load_sources loader)
              \<longrightarrow> r \<notin> response ` set out)"
proof -
  have sub: "set out \<subseteq> set (filtered_samples loader tt sp hh)"
    using random_sampling_cases [OF assms(2) [unfolded get_samples_def]] assms(1) by auto
  have j: "\<forall>x \<in> set out.
            source_id (source x) = response_source_id (response x)
            \<and> source x \<in> set (load_sources loader)
            \<and> response x \<in> set (load_responses loader)"
    using sub filtered_samples_joined by blast
  have "\<forall>r. response_source_id r \<notin> source_id ` set (load_sources loader)
              \<longrightarrow> r \<notin> response ` set out"
  proof (intro allI impI notI)
    fix r
    assume n: "response_source_id r \<notin> source_id ` set (load_sources loader)"
      and "r \<in> response ` set out"
    then obtain x where x: "x \<in> set out" "r = response x" by auto
    with j have "source_id (source x) = response_source_id r"
      "source x \<in> set (load_sources loader)" by auto
    with n show False by force
  qed
  with j show ?thesis by blast
qed
text \<open>The example dataset and the toy generator.\<close>

lemma example_filtered_samples:
  "filtered_samples example_loader TASK_ALL SPLIT_ALL None =
     [\<lparr> source = example_source (ascii ''s1''),
        response = example_response (ascii ''0'') (ascii ''s1'') \<rparr>,
      \<lparr> source = example_source (ascii ''s2''),
        response = example_response (ascii ''1'') (ascii ''s2'') \<rparr>]"
  by (simp add: filtered_samples_def example_loader_def source_map_of_def keep_response_def
      example_response_def example_source_def ascii_def Let_def)

lemma example_random_sound:
  "\<forall>g xs k. set (fst (sample example_random g xs k)) \<subseteq> set xs"
proof (intro allI)
  fix g :: nat and xs :: "'a list" and k :: nat
  have "set (take k (rotate g xs)) \<subseteq> set (rotate g xs)"
    by (rule set_take_subset)
  then show "set (fst (sample example_random g xs k)) \<subseteq> set xs"
    by (simp add: example_random_def)
qed

lemma example_get_samples_one:
  "get_samples example_loader example_random g TASK_ALL SPLIT_ALL None (Some 1) (Some 1) =
     (Inr [\<lparr> source = example_source (ascii ''s2''),
             response = example_response (ascii ''1'') (ascii ''s2'') \<rparr>], 2)"
  by (simp add: get_samples_def example_filtered_samples random_sampling_def example_random_def
      Let_def)
theorem samples_are_joined_witness:
  "fst (get_samples example_loader example_random 0 TASK_ALL SPLIT_ALL None (Some 1) (Some 1)) =
     Inr [\<lparr> source = example_source (ascii ''s2''),
            response = example_response (ascii ''1'') (ascii ''s2'') \<rparr>]
   \<and> source_id (example_source (ascii ''s2''))
       = response_source_id (example_response (ascii ''1'') (ascii ''s2''))
   \<and> example_response (ascii ''2'') (ascii ''s9'')
       \<notin> response ` set [\<lparr> source = example_source (ascii ''s2''),
                              response = example_response (ascii ''1'') (ascii ''s2'') \<rparr>]"
proof -
  have e: "fst (get_samples example_loader example_random 0 TASK_ALL SPLIT_ALL None (Some 1)
                  (Some 1)) =
             Inr [\<lparr> source = example_source (ascii ''s2''),
                    response = example_response (ascii ''1'') (ascii ''s2'') \<rparr>]"
    by (simp add: example_get_samples_one)
  have n: "response_source_id (example_response (ascii ''2'') (ascii ''s9''))
             \<notin> source_id ` set (load_sources example_loader)"
    by (simp add: example_loader_def example_response_def example_source_def ascii_def)
  note t = samples_are_joined [OF example_random_sound e]
  from t [THEN conjunct1]
  have a: "source_id (example_source (ascii ''s2''))
          = response_source_id (example_response (ascii ''1'') (ascii ''s2''))"
    by simp
  from t [THEN conjunct2, rule_format, OF n]
  have b: "example_response (ascii ''2'') (ascii ''s9'')
       \<notin> response ` set [\<lparr> source = example_source (ascii ''s2''),
                              response = example_response (ascii ''1'') (ascii ''s2'') \<rparr>]" .
  from e a b show ?thesis by (intro conjI)
qed
section \<open>Sampling\<close>

text \<open>
  Without a seed the selection depends on the state the generator is in: in the example
  two different states give two different selections.
\<close>

lemma unseeded_sampling_depends_on_state:
  "fst (get_samples example_loader example_random 0 TASK_ALL SPLIT_ALL None (Some 1) None)
   \<noteq> fst (get_samples example_loader example_random 1 TASK_ALL SPLIT_ALL None (Some 1) None)"
  by (simp add: get_samples_def example_filtered_samples random_sampling_def example_random_def
      Let_def example_response_def ascii_def)

text \<open>
  Claim C6. For every filtered sample set, sample count and seed, two calls of
  \<open>get_samples\<close> with the same arguments return the same outcome (the same selection,
  or the same error), whatever state the random generator is in when each call starts,
  so also when the second call starts where the first one ended; and when the count
  is at least the size of the filtered set, the whole set is returned.
\<close>

theorem sampling_reproducible:
  "fst (get_samples loader rng g1 tt sp hh max_samples (Some n)) =
   fst (get_samples loader rng g2 tt sp hh max_samples (Some n))
   \<and> fst (get_samples loader rng
            (snd (get_samples loader rng g1 tt sp hh max_samples (Some n)))
            tt sp hh max_samples (Some n)) =
     fst (get_samples loader rng g1 tt sp hh max_samples (Some n))
   \<and> (\<forall>k. int (length (filtered_samples loader tt sp hh)) \<le> k \<longrightarrow>
          get_samples loader rng g1 tt sp hh (Some k) random_seed =
            (Inr (filtered_samples loader tt sp hh), g1))"
proof (intro conjI allI impI)
  show "fst (get_samples loader rng g1 tt sp hh max_samples (Some n)) =
        fst (get_samples loader rng g2 tt sp hh max_samples (Some n))"
    unfolding get_samples_def by (rule random_sampling_seeded)
  show "fst (get_samples loader rng
            (snd (get_samples loader rng g1 tt sp hh max_samples (Some n)))
            tt sp hh max_samples (Some n)) =
     fst (get_samples loader rng g1 tt sp hh max_samples (Some n))"
    unfolding get_samples_def by (rule random_sampling_seeded)
  fix k :: int
  assume "int (length (filtered_samples loader tt sp hh)) \<le> k"
  then show "get_samples loader rng g1 tt sp hh (Some k) random_seed =
            (Inr (filtered_samples loader tt sp hh), g1)"
    unfolding get_samples_def by (intro random_sampling_all) simp
qed

theorem sampling_reproducible_witness:
  "fst (get_samples example_loader example_random 0 TASK_ALL SPLIT_ALL None (Some 1) (Some 1)) =
   fst (get_samples example_loader example_random 5 TASK_ALL SPLIT_ALL None (Some 1) (Some 1))
   \<and> get_samples example_loader example_random 0 TASK_ALL SPLIT_ALL None (Some 2) (Some 1) =
       (Inr [\<lparr> source = example_source (ascii ''s1''),
               response = example_response (ascii ''0'') (ascii ''s1'') \<rparr>,
             \<lparr> source = example_source (ascii ''s2''),
               response = example_response (ascii ''1'') (ascii ''s2'') \<rparr>], 0)"
proof -
  have l: "int (length (filtered_samples example_loader TASK_ALL SPLIT_ALL None)) \<le> 2"
    by (simp add: example_filtered_samples)
  show ?thesis
    using sampling_reproducible [of example_loader example_random 0 TASK_ALL SPLIT_ALL None
        "Some 1" 1 5 "Some 1"] l
    by (simp add: example_filtered_samples)
qed

text \<open>
  Claim C10, as amended. With \<open>max_samples\<close> 0 or \<open>None\<close>, \<open>get_samples\<close> returns
  every sample of the filtered set, for every seed, and leaves the random generator
  untouched, because the sampling step is applied only when \<open>max_samples\<close> is a
  non-zero number smaller than the size of the filtered set: for any other value the
  filtered set is returned whole, and for a positive value below the size the result
  is the selection of \<open>random.sample\<close>, made after seeding when a seed is given.
\<close>

theorem sampling_guard:
  "(max_samples = None \<or> max_samples = Some 0 \<longrightarrow>
      get_samples loader rng g tt sp hh max_samples random_seed =
        (Inr (filtered_samples loader tt sp hh), g))
   \<and> (\<not> (\<exists>k. max_samples = Some k \<and> k \<noteq> 0
              \<and> k < int (length (filtered_samples loader tt sp hh))) \<longrightarrow>
      get_samples loader rng g tt sp hh max_samples random_seed =
        (Inr (filtered_samples loader tt sp hh), g))
   \<and> (\<forall>k. max_samples = Some k \<and> 0 < k
            \<and> k < int (length (filtered_samples loader tt sp hh)) \<longrightarrow>
      get_samples loader rng g tt sp hh max_samples random_seed =
        (case sample rng (case random_seed of None \<Rightarrow> g | Some n \<Rightarrow> seed rng n)
                (filtered_samples loader tt sp hh) (nat k) of
           (chosen, g2) \<Rightarrow> (Inr chosen, g2)))"
proof (intro conjI allI impI)
  assume "max_samples = None \<or> max_samples = Some 0"
  then show "get_samples loader rng g tt sp hh max_samples random_seed =
        (Inr (filtered_samples loader tt sp hh), g)"
    unfolding get_samples_def by (intro random_sampling_all) auto
next
  assume "\<not> (\<exists>k. max_samples = Some k \<and> k \<noteq> 0
              \<and> k < int (length (filtered_samples loader tt sp hh)))"
  then have "max_samples = None
     \<or> (\<exists>k. max_samples = Some k
            \<and> (k = 0 \<or> int (length (filtered_samples loader tt sp hh)) \<le> k))"
    by (cases max_samples) auto
  then show "get_samples loader rng g tt sp hh max_samples random_seed =
        (Inr (filtered_samples loader tt sp hh), g)"
    unfolding get_samples_def by (rule random_sampling_all)
next
  fix k :: int
  assume "max_samples = Some k \<and> 0 < k \<and> k < int (length (filtered_samples loader tt sp hh))"
  then show "get_samples loader rng g tt sp hh max_samples random_seed =
        (case sample rng (case random_seed of None \<Rightarrow> g | Some n \<Rightarrow> seed rng n)
                (filtered_samples loader tt sp hh) (nat k) of
           (chosen, g2) \<Rightarrow> (Inr chosen, g2))"
    by (simp add: get_samples_def random_sampling_def Let_def)
qed

theorem sampling_guard_witness:
  "get_samples example_loader example_random 3 TASK_ALL SPLIT_ALL None (Some 0) (Some 1) =
     (Inr [\<lparr> source = example_source (ascii ''s1''),
             response = example_response (ascii ''0'') (ascii ''s1'') \<rparr>,
           \<lparr> source = example_source (ascii ''s2''),
             response = example_response (ascii ''1'') (ascii ''s2'') \<rparr>], 3)
   \<and> get_samples example_loader example_random 3 TASK_ALL SPLIT_ALL None None (Some 1) =
     (Inr [\<lparr> source = example_source (ascii ''s1''),
             response = example_response (ascii ''0'') (ascii ''s1'') \<rparr>,
           \<lparr> source = example_source (ascii ''s2''),
             response = example_response (ascii ''1'') (ascii ''s2'') \<rparr>], 3)
   \<and> get_samples example_loader example_random 3 TASK_ALL SPLIT_ALL None (Some 1) (Some 1) =
     (Inr [\<lparr> source = example_source (ascii ''s2''),
             response = example_response (ascii ''1'') (ascii ''s2'') \<rparr>], 2)"
proof -
  have a: "get_samples example_loader example_random 3 TASK_ALL SPLIT_ALL None (Some 0) (Some 1) =
     (Inr (filtered_samples example_loader TASK_ALL SPLIT_ALL None), 3)"
    using sampling_guard [of "Some 0" example_loader example_random 3 TASK_ALL SPLIT_ALL None
        "Some 1"]
    by simp
  have b: "get_samples example_loader example_random 3 TASK_ALL SPLIT_ALL None None (Some 1) =
     (Inr (filtered_samples example_loader TASK_ALL SPLIT_ALL None), 3)"
    using sampling_guard [of None example_loader example_random 3 TASK_ALL SPLIT_ALL None
        "Some 1"]
    by simp
  have c: "get_samples example_loader example_random 3 TASK_ALL SPLIT_ALL None (Some 1) (Some 1) =
     (Inr [\<lparr> source = example_source (ascii ''s2''),
             response = example_response (ascii ''1'') (ascii ''s2'') \<rparr>], 2)"
    using sampling_guard [of "Some 1" example_loader example_random 3 TASK_ALL SPLIT_ALL None
        "Some 1"]
    by (simp add: example_filtered_samples example_random_def)
  show ?thesis
    unfolding a b c by (simp add: example_filtered_samples)
qed

text \<open>
  Claim C10 as stated fails at this input: \<open>max_samples = -1\<close> is not a positive
  number, yet the guard lets it through, the generator is reseeded (its state goes
  from 3 to 1) and \<open>random.sample\<close> is called, which raises \<open>ValueError\<close>.
\<close>

theorem sampling_negative_count:
  "\<not> (0 < (-1 :: int))
   \<and> get_samples example_loader example_random 3 TASK_ALL SPLIT_ALL None (Some (-1)) (Some 1) =
       (Inl (ValueError (ascii ''Sample larger than population or is negative'')), 1)"
  by (simp add: get_samples_def example_filtered_samples random_sampling_def example_random_def
      Let_def)

end
